theory Spec2Isabelle
  imports Complex_Main
begin

section \<open>JavaScript numbers\<close>

text \<open>
  The library computes with JavaScript numbers. A number is modelled as a real (the finite
  doubles, with exact arithmetic: rounding is left out), the two infinities, or \<open>NaN\<close>.
  The special values follow IEEE 754 as JavaScript applies it: a division by zero gives an
  infinity or \<open>NaN\<close> and raises nothing, \<open>NaN\<close> is absorbing, and every comparison with
  \<open>NaN\<close> is false. The sign of zero is not modelled: every zero is \<open>+0\<close> (the sums of the
  source start at \<open>0.0\<close>, and a sum that starts at \<open>+0\<close> is never \<open>-0\<close>).
\<close>

datatype jsnum = Fin real | PInf | NInf | NaN

fun js_neg :: "jsnum \<Rightarrow> jsnum" where
  "js_neg (Fin a) = Fin (- a)"
| "js_neg PInf = NInf"
| "js_neg NInf = PInf"
| "js_neg NaN = NaN"

fun js_add :: "jsnum \<Rightarrow> jsnum \<Rightarrow> jsnum" where
  "js_add NaN _ = NaN"
| "js_add _ NaN = NaN"
| "js_add (Fin a) (Fin b) = Fin (a + b)"
| "js_add PInf NInf = NaN"
| "js_add NInf PInf = NaN"
| "js_add PInf _ = PInf"
| "js_add _ PInf = PInf"
| "js_add NInf _ = NInf"
| "js_add _ NInf = NInf"

definition js_sub :: "jsnum \<Rightarrow> jsnum \<Rightarrow> jsnum" where
  "js_sub a b = js_add a (js_neg b)"

text \<open>The sign of a number that is not \<open>NaN\<close>; zero counts as positive (\<open>+0\<close>).\<close>

fun js_nonneg :: "jsnum \<Rightarrow> bool" where
  "js_nonneg (Fin a) = (0 \<le> a)"
| "js_nonneg PInf = True"
| "js_nonneg NInf = False"
| "js_nonneg NaN = False"

definition js_signed_inf :: "bool \<Rightarrow> jsnum" where
  "js_signed_inf positive = (if positive then PInf else NInf)"

fun js_mul :: "jsnum \<Rightarrow> jsnum \<Rightarrow> jsnum" where
  "js_mul NaN _ = NaN"
| "js_mul _ NaN = NaN"
| "js_mul (Fin a) (Fin b) = Fin (a * b)"
| "js_mul (Fin a) b = (if a = 0 then NaN else js_signed_inf (js_nonneg (Fin a) = js_nonneg b))"
| "js_mul a (Fin b) = (if b = 0 then NaN else js_signed_inf (js_nonneg a = js_nonneg (Fin b)))"
| "js_mul a b = js_signed_inf (js_nonneg a = js_nonneg b)"

fun js_div :: "jsnum \<Rightarrow> jsnum \<Rightarrow> jsnum" where
  "js_div NaN _ = NaN"
| "js_div _ NaN = NaN"
| "js_div (Fin a) (Fin b) =
     (if b \<noteq> 0 then Fin (a / b)
      else if a = 0 then NaN
      else js_signed_inf (0 < a))"
| "js_div (Fin a) _ = Fin 0"
| "js_div a (Fin b) = js_signed_inf (js_nonneg a = js_nonneg (Fin b))"
| "js_div _ _ = NaN"

text \<open>The comparison \<open>a <= b\<close>.\<close>

fun js_le :: "jsnum \<Rightarrow> jsnum \<Rightarrow> bool" where
  "js_le NaN _ = False"
| "js_le _ NaN = False"
| "js_le (Fin a) (Fin b) = (a \<le> b)"
| "js_le NInf _ = True"
| "js_le _ PInf = True"
| "js_le _ _ = False"

text \<open>\<open>Math.min\<close> and \<open>Math.max\<close>: \<open>NaN\<close> as soon as one argument is \<open>NaN\<close>.\<close>

fun js_min :: "jsnum \<Rightarrow> jsnum \<Rightarrow> jsnum" where
  "js_min NaN _ = NaN"
| "js_min _ NaN = NaN"
| "js_min a b = (if js_le a b then a else b)"

fun js_max :: "jsnum \<Rightarrow> jsnum \<Rightarrow> jsnum" where
  "js_max NaN _ = NaN"
| "js_max _ NaN = NaN"
| "js_max a b = (if js_le a b then b else a)"

text \<open>
  \<open>Math.pow\<close>, after the cases of the language standard (Number::exponentiate), without
  the cases of \<open>-0\<close>.
\<close>

fun js_pow :: "jsnum \<Rightarrow> jsnum \<Rightarrow> jsnum" where
  "js_pow _ NaN = NaN"
| "js_pow b (Fin e) =
     (if e = 0 then Fin 1
      else case b of
        NaN \<Rightarrow> NaN
      | PInf \<Rightarrow> (if 0 < e then PInf else Fin 0)
      | NInf \<Rightarrow>
          (if 0 < e then (if e \<in> \<int> \<and> odd \<lfloor>e\<rfloor> then NInf else PInf) else Fin 0)
      | Fin x \<Rightarrow>
          (if x = 0 then (if 0 < e then Fin 0 else PInf)
           else if 0 < x then Fin (x powr e)
           else if e \<in> \<int> then Fin (x powi \<lfloor>e\<rfloor>)
           else NaN))"
| "js_pow b PInf =
     (case b of
        NaN \<Rightarrow> NaN
      | Fin x \<Rightarrow> (if 1 < \<bar>x\<bar> then PInf else if \<bar>x\<bar> = 1 then NaN else Fin 0)
      | _ \<Rightarrow> PInf)"
| "js_pow b NInf =
     (case b of
        NaN \<Rightarrow> NaN
      | Fin x \<Rightarrow> (if 1 < \<bar>x\<bar> then Fin 0 else if \<bar>x\<bar> = 1 then NaN else PInf)
      | _ \<Rightarrow> Fin 0)"

text \<open>
  Truthiness of a number, as \<open>if (v)\<close>, \<open>!v\<close> and \<open>v || d\<close> test it: zero and \<open>NaN\<close> are
  falsy. A value that is no number (\<open>undefined\<close>, or a function or object found by a
  lookup) is converted to \<open>NaN\<close> by arithmetic; \<open>to_number\<close> reads an optional own
  property that way.
\<close>

fun truthy :: "jsnum \<Rightarrow> bool" where
  "truthy (Fin a) = (a \<noteq> 0)"
| "truthy NaN = False"
| "truthy _ = True"

fun to_number :: "jsnum option \<Rightarrow> jsnum" where
  "to_number None = NaN"
| "to_number (Some v) = v"


section \<open>Plain objects\<close>

text \<open>
  The weight maps and the table of default interests are plain objects: made by \<open>{}\<close>,
  by \<open>JSON.parse\<close> or by \<open>Object.assign({}, ...)\<close>, so their prototype is
  \<open>Object.prototype\<close>. A map \<open>string \<rightharpoonup> 'a\<close> holds the own properties of such an object.
  A lookup \<open>obj[k]\<close> gives the own property if there is one, and else, for the names
  below, the member inherited from \<open>Object.prototype\<close>: a function, or for \<open>__proto__\<close>
  the prototype itself. Such a value is truthy, arithmetic turns it into \<open>NaN\<close>, and a
  property read from it (\<open>.weight\<close>) is \<open>undefined\<close>.
\<close>

definition object_prototype_members :: "string list" where
  "object_prototype_members =
     [''constructor'', ''hasOwnProperty'', ''isPrototypeOf'', ''propertyIsEnumerable'',
      ''toLocaleString'', ''toString'', ''valueOf'', ''__proto__'', ''__defineGetter__'',
      ''__defineSetter__'', ''__lookupGetter__'', ''__lookupSetter__'']"

definition inherited :: "string \<Rightarrow> bool" where
  "inherited k = (k \<in> set object_prototype_members)"

text \<open>The truthiness of \<open>obj[k]\<close> for an object that holds numbers.\<close>

definition lookup_truthy :: "(string \<rightharpoonup> jsnum) \<Rightarrow> string \<Rightarrow> bool" where
  "lookup_truthy obj k = (case obj k of Some v \<Rightarrow> truthy v | None \<Rightarrow> inherited k)"

text \<open>
  The assignment \<open>obj[k] = v\<close> of a number. The inherited members are writable data
  properties, so the assignment makes an own property, except for \<open>__proto__\<close>: that one
  is an accessor, and its setter ignores a value that is neither an object nor \<open>null\<close>.
  An own property \<open>__proto__\<close>, which \<open>JSON.parse\<close> can make, is assigned like any other.
\<close>

definition assign_prop :: "(string \<rightharpoonup> jsnum) \<Rightarrow> string \<Rightarrow> jsnum \<Rightarrow> (string \<rightharpoonup> jsnum)" where
  "assign_prop obj k v = (if k = ''__proto__'' \<and> obj k = None then obj else obj(k \<mapsto> v))"

text \<open>
  \<open>Object.assign({}, source)\<close>, and likewise a loop that assigns a number for every key
  of \<open>source\<close> to a fresh object: each property is assigned as above, so the result
  has the own properties of \<open>source\<close> without \<open>__proto__\<close>.
\<close>

definition object_assign :: "(string \<rightharpoonup> jsnum) \<Rightarrow> (string \<rightharpoonup> jsnum)" where
  "object_assign source = source(''__proto__'' := None)"

section \<open>Data model\<close>

text \<open>
  A lookbook of the feed, with the fields the library reads. \<open>lkbk_uid\<close> is \<open>None\<close> when
  \<open>typeof lkbk.uid\<close> is not \<open>'string'\<close>; \<open>lkbk_interests\<close> is \<open>None\<close> when the property is
  absent, and a property that is present is an array of interest identifiers, as in the
  feed; \<open>lkbk_boost\<close> is \<open>None\<close> when absent; \<open>lkbk_promote\<close> is the truthiness of
  \<open>promote\<close>; \<open>lkbk_score\<close> is the \<open>score\<close> property, \<open>NaN\<close> while it is absent, which is
  what arithmetic makes of \<open>undefined\<close>. The display fields (title, summary, link,
  images) are carried through unread and are left out.
\<close>

record lookbook =
  lkbk_uid :: "string option"
  lkbk_interests :: "string list option"
  lkbk_boost :: "jsnum option"
  lkbk_promote :: bool
  lkbk_score :: jsnum

text \<open>
  The \<open>posts\<close> argument of \<open>choose\<close> is untyped: it may be no array, and an element of the
  array may be no object (\<open>null\<close>, a number, a string).
\<close>

datatype entry = NonObject | Object lookbook

datatype posts = NotArray | Array "entry list"

text \<open>An entry of the feed's \<open>interests\<close> table.\<close>

record default_interest =
  name_en :: string
  weight :: "jsnum option"

type_synonym weights = "string \<rightharpoonup> jsnum"

text \<open>
  The \<open>settings\<close> argument of \<open>choose\<close> and its \<open>interest\<close> object; a field is \<open>None\<close> when
  the caller does not supply it. (The prefixes keep the fields apart from those of the
  instance.)
\<close>

record interest_settings =
  i_level0_multiplier :: "jsnum option"
  i_initial :: "jsnum option"
  i_hit :: "jsnum option"
  i_miss :: "jsnum option"
  i_filter_const :: "jsnum option"
  i_deprioritization :: "jsnum option"
  i_no_interests :: "jsnum option"
  i_scoreBoost :: "jsnum option"

record settings =
  s_count :: "int option"
  s_maxConsidered :: "int option"
  s_interest :: "interest_settings option"

text \<open>
  The instance that \<open>NewPersonalize\<close> builds. The fields that only the logging and
  debugging sections use (\<open>debug\<close>, \<open>lastEvent\<close>, \<open>lastUserWeights\<close>) are left out, with
  those sections: they write to the console and to \<open>window.dataLayer\<close> and never to
  \<open>localStorage\<close> or to a field below. The two fields that count lookbooks, \<open>count\<close> and
  \<open>maxConsidered\<close>, are integers; the other tunables are numbers.
\<close>

record personalize =
  count :: int
  level0Multiplier :: jsnum
  initialValue :: jsnum
  hitValue :: jsnum
  missValue :: jsnum
  initialWeight :: jsnum
  filterConst :: jsnum
  deprioritization :: jsnum
  noInterestsValue :: jsnum
  scoreBoostExponent :: jsnum
  interestValueFloor :: jsnum
  lastAverage :: jsnum
  maxConsidered :: int
  defaultInterests :: "string \<rightharpoonup> default_interest"
  posts :: posts
  scored :: "lookbook list"
  scoreBoost :: "jsnum option"

definition NewPersonalize :: personalize where
  "NewPersonalize =
     \<lparr> count = 4,
       level0Multiplier = Fin 2.0,
       initialValue = Fin 0.5,
       hitValue = Fin 2,
       missValue = Fin 0.0001,
       initialWeight = Fin 0.001,
       filterConst = Fin 0.95,
       deprioritization = Fin 0.2,
       noInterestsValue = Fin 0.01,
       scoreBoostExponent = Fin 1.9,
       interestValueFloor = Fin 0.1,
       lastAverage = Fin 0,
       maxConsidered = 50,
       defaultInterests = Map.empty,
       posts = Array [],
       scored = [],
       scoreBoost = None \<rparr>"

text \<open>
  What the library works on: the instance and the item of \<open>localStorage\<close> under the key
  \<open>'personalize-user-weights'\<close>, \<open>None\<close> while there is no such item. The item is only ever
  written by \<open>setWeights\<close>, so it is the JSON text of a weight map, and it is kept here as
  the map that \<open>JSON.parse\<close> reads from it.
\<close>

record env =
  this :: personalize
  localStorage :: "weights option"

datatype error = TypeError

section \<open>PUBLIC: resolving the settings\<close>

text \<open>The operator \<open>||\<close> on an optional setting and the current value of the field.\<close>

fun or_num :: "jsnum option \<Rightarrow> jsnum \<Rightarrow> jsnum" where
  "or_num None d = d"
| "or_num (Some v) d = (if truthy v then v else d)"

fun or_int :: "int option \<Rightarrow> int \<Rightarrow> int" where
  "or_int None d = d"
| "or_int (Some n) d = (if n \<noteq> 0 then n else d)"

fun or_opt :: "jsnum option \<Rightarrow> jsnum option \<Rightarrow> jsnum option" where
  "or_opt None d = d"
| "or_opt (Some v) d = (if truthy v then Some v else d)"

definition empty_interest :: interest_settings where
  "empty_interest =
     \<lparr> i_level0_multiplier = None, i_initial = None, i_hit = None, i_miss = None,
       i_filter_const = None, i_deprioritization = None, i_no_interests = None,
       i_scoreBoost = None \<rparr>"

text \<open>The assignments at the head of \<open>choose\<close>, before it calls \<open>performChoose\<close>.\<close>

definition choose_setup ::
  "personalize \<Rightarrow> posts \<Rightarrow> settings \<Rightarrow> (string \<rightharpoonup> default_interest) \<Rightarrow> personalize" where
  "choose_setup t ps st di =
     (let interest = (case s_interest st of None \<Rightarrow> empty_interest | Some i \<Rightarrow> i)
      in t\<lparr> posts := ps,
            count := or_int (s_count st) (count t),
            maxConsidered := or_int (s_maxConsidered st) (maxConsidered t),
            level0Multiplier := or_num (i_level0_multiplier interest) (level0Multiplier t),
            initialValue := or_num (i_initial interest) (initialValue t),
            hitValue := or_num (i_hit interest) (hitValue t),
            missValue := or_num (i_miss interest) (missValue t),
            filterConst := or_num (i_filter_const interest) (filterConst t),
            deprioritization := or_num (i_deprioritization interest) (deprioritization t),
            noInterestsValue := or_num (i_no_interests interest) (noInterestsValue t),
            scoreBoost := or_opt (i_scoreBoost interest) (scoreBoost t),
            defaultInterests := di \<rparr>)"

section \<open>CHOOSE: sanitizing the catalog\<close>

fun cleanup_loop :: "entry list \<Rightarrow> lookbook list \<Rightarrow> lookbook list" where
  "cleanup_loop [] result = result"
| "cleanup_loop (NonObject # rest) result = cleanup_loop rest result"
| "cleanup_loop (Object lkbk # rest) result =
     (if lkbk_uid lkbk = None then cleanup_loop rest result
      else if (case lkbk_interests lkbk of None \<Rightarrow> True | Some is \<Rightarrow> length is = 0)
        then cleanup_loop rest result
      else cleanup_loop rest (result @ [lkbk]))"

fun cleanup :: "posts \<Rightarrow> lookbook list" where
  "cleanup NotArray = []"
| "cleanup (Array lookbooks) = cleanup_loop lookbooks []"

text \<open>
  \<open>cleaned.slice(0, maxConsidered)\<close>: a negative end counts from the end of the array.
\<close>

definition slice0 :: "'a list \<Rightarrow> int \<Rightarrow> 'a list" where
  "slice0 xs n = (if n < 0 then take (length xs - nat (- n)) xs else take (nat n) xs)"

section \<open>SCORING\<close>

text \<open>
  \<open>priority\<close> returns \<open>v\<close> or \<open>v.weight\<close> as it is, which may be an inherited member or
  \<open>undefined\<close>; its caller only multiplies and adds the result, so either is given as
  \<open>NaN\<close>. Both lookups are lookups in a plain object.
\<close>

definition priority :: "personalize \<Rightarrow> string \<Rightarrow> weights \<Rightarrow> jsnum" where
  "priority t interest userWeights =
     (if lookup_truthy userWeights interest then to_number (userWeights interest)
      else case defaultInterests t interest of
        Some v \<Rightarrow> to_number (weight v)
      | None \<Rightarrow> (if inherited interest then NaN else initialValue t))"

text \<open>The inner loop of \<open>score\<close>, with its counter \<open>i\<close> and its accumulator \<open>finalScore\<close>.\<close>

fun score_interests :: "personalize \<Rightarrow> weights \<Rightarrow> string list \<Rightarrow> nat \<Rightarrow> jsnum \<Rightarrow> jsnum" where
  "score_interests t userWeights [] i finalScore = finalScore"
| "score_interests t userWeights (interest # rest) i finalScore =
     (let s = priority t interest userWeights;
          s = (if i = 0 then js_mul s (level0Multiplier t) else s)
      in score_interests t userWeights rest (i + 1) (js_add finalScore s))"

definition score_lookbook :: "personalize \<Rightarrow> weights \<Rightarrow> lookbook \<Rightarrow> lookbook" where
  "score_lookbook t userWeights lkbk =
     (let finalScore =
            (case lkbk_interests lkbk of
               None \<Rightarrow> noInterestsValue t
             | Some is \<Rightarrow> score_interests t userWeights is 0 (Fin 0.0));
          boost = or_num (lkbk_boost lkbk) (Fin 0.0);
          finalScore = js_mul finalScore (js_add (Fin 1.0) boost)
      in lkbk\<lparr>lkbk_score := js_pow finalScore (scoreBoostExponent t)\<rparr>)"

definition score :: "personalize \<Rightarrow> lookbook list \<Rightarrow> weights \<Rightarrow> lookbook list" where
  "score t lookbooks userWeights = map (score_lookbook t userWeights) lookbooks"

section \<open>SELECTION\<close>

text \<open>\<open>scoreSum\<close>: the sum of the scores, from \<open>0.0\<close>, in list order.\<close>

definition scoreSum :: "lookbook list \<Rightarrow> jsnum" where
  "scoreSum lookbooks = foldl (\<lambda>s lkbk. js_add s (lkbk_score lkbk)) (Fin 0.0) lookbooks"

text \<open>
  The loop of \<open>getSelection\<close> with its variables \<open>runningSum\<close> and \<open>index\<close>; when the
  loop ends without a pick the function returns \<open>0\<close>.
\<close>

fun selection_walk :: "lookbook list \<Rightarrow> jsnum \<Rightarrow> jsnum \<Rightarrow> jsnum \<Rightarrow> nat \<Rightarrow> nat" where
  "selection_walk [] randomChoice ssum runningSum index = 0"
| "selection_walk (lkbk # rest) randomChoice ssum runningSum index =
     (let runningSum = js_add runningSum (js_div (lkbk_score lkbk) ssum)
      in if js_le randomChoice runningSum then index
         else selection_walk rest randomChoice ssum runningSum (index + 1))"

text \<open>
  \<open>getSelection\<close> draws one value from \<open>rand\<close>; the model takes the value drawn. It
  returns the index picked and the instance with \<open>lastAverage\<close> assigned.
\<close>

definition getSelection :: "personalize \<Rightarrow> lookbook list \<Rightarrow> jsnum \<Rightarrow> nat \<times> personalize" where
  "getSelection t lookbooks randomChoice =
     (let ssum = scoreSum lookbooks;
          t = t\<lparr>lastAverage := js_div ssum (Fin (real (length lookbooks)))\<rparr>
      in (selection_walk lookbooks randomChoice ssum (Fin 0.0) 0, t))"

text \<open>The object that \<open>updateChoices\<close> returns.\<close>

record choice_update =
  u_lookbook :: lookbook
  u_lookbooks :: "lookbook list"
  u_userWeights :: weights

text \<open>
  The loop of \<open>updateChoices\<close> over the interests of the picked lookbook. A weight that
  is not an own property reads as \<open>undefined\<close> or as an inherited member, \<open>NaN\<close> in the
  product either way.
\<close>

fun deprioritize :: "personalize \<Rightarrow> string list \<Rightarrow> weights \<Rightarrow> weights" where
  "deprioritize t [] uw = uw"
| "deprioritize t (i # rest) uw =
     deprioritize t rest
       (assign_prop uw i (js_mul (to_number (uw i)) (js_sub (Fin 1.0) (deprioritization t))))"

text \<open>
  \<open>lookbooks[index]\<close> is \<open>undefined\<close> out of range, and reading \<open>interests\<close> of
  \<open>undefined\<close>, or iterating over an absent \<open>interests\<close>, raises a TypeError.
\<close>

definition updateChoices ::
  "personalize \<Rightarrow> lookbook list \<Rightarrow> weights \<Rightarrow> nat \<Rightarrow> error + choice_update" where
  "updateChoices t lookbooks userWeights index =
     (if length lookbooks \<le> index then Inl TypeError
      else
        let lkbk = lookbooks ! index;
            remaining = take index lookbooks @ drop (index + 1) lookbooks
        in case lkbk_interests lkbk of
             None \<Rightarrow> Inl TypeError
           | Some is \<Rightarrow>
               Inr \<lparr> u_lookbook = lkbk,
                     u_lookbooks = remaining,
                     u_userWeights = deprioritize t is (object_assign userWeights) \<rparr>)"

text \<open>The first loop of \<open>getList\<close>, which fills \<open>result\<close> and \<open>temp\<close>.\<close>

fun promote_loop ::
  "lookbook list \<Rightarrow> lookbook list \<Rightarrow> lookbook list \<Rightarrow> lookbook list \<times> lookbook list" where
  "promote_loop [] result temp = (result, temp)"
| "promote_loop (lkbk # rest) result temp =
     (if lkbk_promote lkbk then promote_loop rest (result @ [lkbk]) temp
      else promote_loop rest result (temp @ [lkbk]))"

text \<open>
  The second loop of \<open>getList\<close>: \<open>n\<close> rounds are left, \<open>i\<close> is the loop counter, and
  \<open>rand i\<close> is the value that the random source returns at its call number \<open>i\<close>.
\<close>

fun select_loop ::
  "nat \<Rightarrow> nat \<Rightarrow> (nat \<Rightarrow> jsnum) \<Rightarrow> personalize \<Rightarrow> lookbook list \<Rightarrow> weights \<Rightarrow> lookbook list
     \<Rightarrow> error + (lookbook list \<times> personalize)" where
  "select_loop 0 i rand t lookbooks userWeights result = Inr (result, t)"
| "select_loop (Suc n) i rand t lookbooks userWeights result =
     (case getSelection t lookbooks (rand i) of
        (selected, t) \<Rightarrow>
          (case updateChoices t lookbooks userWeights selected of
             Inl e \<Rightarrow> Inl e
           | Inr update \<Rightarrow>
               select_loop n (i + 1) rand t (u_lookbooks update) (u_userWeights update)
                 (result @ [u_lookbook update])))"

definition getList ::
  "personalize \<Rightarrow> lookbook list \<Rightarrow> weights \<Rightarrow> (nat \<Rightarrow> jsnum)
     \<Rightarrow> error + (lookbook list \<times> personalize)" where
  "getList t lookbooks userWeights rand =
     (case promote_loop lookbooks [] [] of
        (result, temp) \<Rightarrow>
          let num = min (count t - int (length result)) (int (length temp))
          in select_loop (nat num) 0 rand t temp userWeights result)"

section \<open>UPDATE_WEIGHTS\<close>

text \<open>
  The body of the first loop of \<open>updateWeights\<close> for the key \<open>k\<close> with the weight \<open>w\<close>;
  the loop visits every key of the map once and the keys do not depend on each other.
\<close>

definition filter_weight :: "personalize \<Rightarrow> string list \<Rightarrow> string \<Rightarrow> jsnum \<Rightarrow> jsnum" where
  "filter_weight t clicked k w =
     (let v = (if k \<notin> set clicked then missValue t else hitValue t);
          sc = js_add (js_mul (filterConst t) w) (js_mul (js_sub (Fin 1.0) (filterConst t)) v)
      in js_min (Fin 1.0) (js_max (interestValueFloor t) sc))"

text \<open>
  The second loop, which gives \<open>initialValue\<close> to every clicked interest for which
  \<open>userWeights[i]\<close> is falsy. The assignment is then to an own property or to a name
  that is not inherited, so it always makes or changes an own property.
\<close>

fun add_missing :: "personalize \<Rightarrow> string list \<Rightarrow> weights \<Rightarrow> weights" where
  "add_missing t [] uw = uw"
| "add_missing t (i # rest) uw =
     add_missing t rest (if \<not> lookup_truthy uw i then uw(i \<mapsto> initialValue t) else uw)"

definition updateWeights :: "personalize \<Rightarrow> string list \<Rightarrow> weights \<Rightarrow> weights" where
  "updateWeights t clicked userWeights =
     add_missing t clicked (\<lambda>k. map_option (filter_weight t clicked k) (userWeights k))"

section \<open>STORAGE\<close>

text \<open>
  \<open>JSON.stringify\<close> writes \<open>NaN\<close> and the infinities as \<open>null\<close>. Read back, \<open>null\<close> is
  falsy and counts as zero in a product, like \<open>0\<close>, and the library reads a weight in no
  other way; so the model stores \<open>0\<close> for such a weight.
\<close>

fun json_number :: "jsnum \<Rightarrow> jsnum" where
  "json_number (Fin a) = Fin a"
| "json_number _ = Fin 0"

definition setWeights :: "weights \<Rightarrow> env \<Rightarrow> env" where
  "setWeights ws e = e\<lparr>localStorage := Some (\<lambda>k. map_option json_number (ws k))\<rparr>"

text \<open>
  Without a stored item, \<open>getWeights\<close> builds a map from the table of default interests:
  it assigns \<open>defaultInterests[k].weight || initialWeight\<close> for each key \<open>k\<close> of the table
  to a fresh object.
\<close>

definition getWeights :: "env \<Rightarrow> weights" where
  "getWeights e =
     (case localStorage e of
        Some v \<Rightarrow> v
      | None \<Rightarrow>
          object_assign
            (\<lambda>k. map_option (\<lambda>d. or_num (weight d) (initialWeight (this e)))
                   (defaultInterests (this e) k)))"

section \<open>CHOOSE and the public entry points\<close>

text \<open>
  \<open>performChoose\<close> calls \<open>getList\<close> without a random source, so \<open>getList\<close> draws from
  \<open>Math.random\<close>; \<open>rand\<close> stands for the values that it returns, in order.
\<close>

definition performChoose :: "posts \<Rightarrow> (nat \<Rightarrow> jsnum) \<Rightarrow> env \<Rightarrow> error + (lookbook list \<times> env)" where
  "performChoose ps rand e =
     (let userWeights = getWeights e;
          cleaned = cleanup ps;
          data = slice0 cleaned (maxConsidered (this e));
          t = (this e)\<lparr>scored := score (this e) data userWeights\<rparr>
      in case getList t (scored t) userWeights rand of
           Inl err \<Rightarrow> Inl err
         | Inr (list, t) \<Rightarrow> Inr (list, e\<lparr>this := t\<rparr>))"

text \<open>
  \<open>choose\<close> (the name is taken in HOL by the binomial coefficient, hence the suffix).
\<close>

definition choose_lookbooks ::
  "posts \<Rightarrow> settings \<Rightarrow> (string \<rightharpoonup> default_interest) \<Rightarrow> (nat \<Rightarrow> jsnum) \<Rightarrow> env
     \<Rightarrow> error + (lookbook list \<times> env)" where
  "choose_lookbooks ps st di rand e =
     performChoose ps rand (e\<lparr>this := choose_setup (this e) ps st di\<rparr>)"

text \<open>\<open>click\<close>; \<open>logChoice\<close> only reports the click and is left out.\<close>

definition click :: "string \<Rightarrow> string list \<Rightarrow> env \<Rightarrow> env" where
  "click uid clicked e =
     (let updatedWeights = updateWeights (this e) clicked (getWeights e)
      in setWeights updatedWeights e)"

section \<open>Vocabulary of the specification\<close>

text \<open>
  An entry that \<open>cleanup\<close> is to keep, in the words of the specification: an object with a
  string uid and an interests array that is not empty.
\<close>

fun valid_entry :: "entry \<Rightarrow> bool" where
  "valid_entry NonObject = False"
| "valid_entry (Object lkbk) =
     (lkbk_uid lkbk \<noteq> None \<and> (case lkbk_interests lkbk of None \<Rightarrow> False | Some is \<Rightarrow> is \<noteq> []))"

text \<open>
  \<open>promotedCount\<close> and \<open>remainingSlots\<close> of the specification: the slots left are
  \<open>max(0, count - promotedCount)\<close>, capped at the size of the pool.
\<close>

definition promotedCount :: "lookbook list \<Rightarrow> nat" where
  "promotedCount lookbooks = length (filter lkbk_promote lookbooks)"

definition remainingSlots :: "personalize \<Rightarrow> lookbook list \<Rightarrow> nat" where
  "remainingSlots t lookbooks =
     min (nat (max 0 (count t - int (promotedCount lookbooks))))
         (length (filter (\<lambda>l. \<not> lkbk_promote l) lookbooks))"

section \<open>Inputs used in the examples\<close>

text \<open>
  A lookbook with a uid, interests, a promote flag and a score, and no boost; the same as
  an entry of the feed, not yet scored.
\<close>

definition item :: "string \<Rightarrow> string list \<Rightarrow> bool \<Rightarrow> jsnum \<Rightarrow> lookbook" where
  "item u is p s =
     \<lparr> lkbk_uid = Some u, lkbk_interests = Some is, lkbk_boost = None,
       lkbk_promote = p, lkbk_score = s \<rparr>"

definition raw :: "string \<Rightarrow> string list \<Rightarrow> bool \<Rightarrow> entry" where
  "raw u is p = Object (item u is p NaN)"

text \<open>
  Settings that supply nothing, settings that supply a count and a deprioritization, and
  settings that supply \<open>interest.scoreBoost\<close> only.
\<close>

definition no_settings :: settings where
  "no_settings = \<lparr> s_count = None, s_maxConsidered = None, s_interest = None \<rparr>"

definition count_settings :: "int \<Rightarrow> jsnum option \<Rightarrow> settings" where
  "count_settings n d =
     \<lparr> s_count = Some n, s_maxConsidered = None,
       s_interest = Some (empty_interest\<lparr>i_deprioritization := d\<rparr>) \<rparr>"

definition boost_settings :: "jsnum \<Rightarrow> settings" where
  "boost_settings v =
     no_settings\<lparr>s_interest := Some (empty_interest\<lparr>i_scoreBoost := Some v\<rparr>)\<rparr>"

text \<open>
  A fresh instance over an empty storage, and one over a storage that holds the weight 1
  for the interests \<open>x\<close> and \<open>y\<close>.
\<close>

definition fresh :: env where
  "fresh = \<lparr> this = NewPersonalize, localStorage = None \<rparr>"

definition stored_xy :: env where
  "stored_xy = fresh\<lparr>localStorage := Some (map_of [(''x'', Fin 1), (''y'', Fin 1)])\<rparr>"

text \<open>A random source that returns the same value at every call; empty tables.\<close>

definition always :: "jsnum \<Rightarrow> nat \<Rightarrow> jsnum" where
  "always v i = v"

definition no_weights :: weights where
  "no_weights = Map.empty"

definition no_interests :: "string \<rightharpoonup> default_interest" where
  "no_interests = Map.empty"

text \<open>
  A table of default interests: the first weight is the one of the feed that the header of
  the source shows, the second entry has no weight.
\<close>

definition feed_interests :: "string \<rightharpoonup> default_interest" where
  "feed_interests =
     map_of [(''uid-1234'', \<lparr> name_en = ''Women'', weight = Some (Fin 0.065) \<rparr>),
             (''uid-9999'', \<lparr> name_en = ''New'', weight = None \<rparr>)]"

text \<open>Catalogs.\<close>

definition one_post :: posts where
  "one_post = Array [raw ''a'' [''x''] False]"

definition two_promoted :: posts where
  "two_promoted = Array [raw ''a'' [''x''] True, raw ''b'' [''y''] True]"

definition three_posts :: posts where
  "three_posts =
     Array [raw ''a'' [''x''] False, raw ''b'' [''x''] False, raw ''c'' [''y''] False]"

definition mixed_posts :: posts where
  "mixed_posts =
     Array [NonObject, raw ''a'' [''x''] False, raw ''b'' [] False,
            Object ((item ''c'' [''y''] False NaN)\<lparr>lkbk_uid := None\<rparr>),
            Object ((item ''d'' [''y''] False NaN)\<lparr>lkbk_interests := None\<rparr>),
            raw ''e'' [''y'', ''z''] True]"

definition invalid_posts :: posts where
  "invalid_posts =
     Array [NonObject, raw ''b'' [] False,
            Object ((item ''c'' [''y''] False NaN)\<lparr>lkbk_uid := None\<rparr>),
            Object ((item ''d'' [''y''] False NaN)\<lparr>lkbk_interests := None\<rparr>)]"

text \<open>Six scored lookbooks, the third of them promoted.\<close>

definition six_scored :: "lookbook list" where
  "six_scored =
     [item ''a'' [''x''] False (Fin 1), item ''b'' [''x''] False (Fin 1),
      item ''c'' [''y''] True (Fin 1), item ''d'' [''y''] False (Fin 1),
      item ''e'' [''z''] False (Fin 1), item ''f'' [''z''] False (Fin 1)]"

lemmas example_defs = always_def no_weights_def no_interests_def feed_interests_def
  one_post_def two_promoted_def three_posts_def mixed_posts_def invalid_posts_def
  stored_xy_def six_scored_def raw_def item_def no_settings_def count_settings_def
  boost_settings_def fresh_def empty_interest_def NewPersonalize_def

lemmas object_defs = object_prototype_members_def inherited_def lookup_truthy_def
  assign_prop_def object_assign_def

lemmas choose_defs = choose_lookbooks_def performChoose_def choose_setup_def getWeights_def
  slice0_def score_def score_lookbook_def priority_def getList_def getSelection_def
  scoreSum_def updateChoices_def Let_def object_defs

section \<open>Facts about the numbers\<close>

lemma js_le_NaN_right [simp]: "js_le a NaN = False"
  by (cases a) simp_all

lemma js_add_NaN_right [simp]: "js_add a NaN = NaN"
  by (cases a) simp_all

lemma js_le_PInf: "\<not> js_le rc PInf \<Longrightarrow> rc = NaN"
  by (cases rc) simp_all

lemma js_div_zero:
  "js_div x (Fin 0) = PInf \<or> js_div x (Fin 0) = NInf \<or> js_div x (Fin 0) = NaN"
  by (cases x) (simp_all add: js_signed_inf_def)

lemma nat_min_int: "nat (min a (int b)) = min (nat (max 0 a)) b"
  by arith

lemma pow_2_19: "js_pow (Fin 2) (Fin 1.9) \<noteq> js_pow (Fin 2) (Fin 3)"
proof -
  have "(2::real) powr 1.9 < 2 powr 3" by (rule powr_less_mono) simp_all
  then show ?thesis by simp
qed

section \<open>One sampling round\<close>

lemma walk_NaN_sum: "selection_walk ls rc ss NaN idx = 0"
  by (induction ls arbitrary: idx) simp_all

lemma walk_NaN_choice: "selection_walk ls NaN ss rs idx = 0"
  by (induction ls arbitrary: rs idx) (simp_all add: Let_def)

lemma walk_NInf_sum: "\<not> js_le rc NInf \<Longrightarrow> selection_walk ls rc (Fin 0) NInf idx = 0"
proof (induction ls arbitrary: idx)
  case Nil
  show ?case by simp
next
  case (Cons l ls)
  from js_div_zero [of "lkbk_score l"] show ?case
  proof (elim disjE)
    assume "js_div (lkbk_score l) (Fin 0) = PInf"
    then show ?thesis by (simp add: walk_NaN_sum)
  next
    assume "js_div (lkbk_score l) (Fin 0) = NInf"
    then show ?thesis using Cons by simp
  next
    assume "js_div (lkbk_score l) (Fin 0) = NaN"
    then show ?thesis by (simp add: walk_NaN_sum)
  qed
qed

text \<open>
  With a score sum of zero every share \<open>score / scoreSum\<close> is an infinity or \<open>NaN\<close>. The
  walk then stops at the first lookbook, or its running sum is \<open>-Infinity\<close> or \<open>NaN\<close> from
  there on and no later comparison succeeds.
\<close>

lemma walk_zero_sum: "selection_walk ls rc (Fin 0) (Fin 0) 0 = 0"
proof (cases ls)
  case Nil
  then show ?thesis by simp
next
  case (Cons l rest)
  from js_div_zero [of "lkbk_score l"] show ?thesis
  proof (elim disjE)
    assume "js_div (lkbk_score l) (Fin 0) = PInf"
    then show ?thesis using Cons by (auto simp: walk_NaN_choice dest: js_le_PInf)
  next
    assume "js_div (lkbk_score l) (Fin 0) = NInf"
    then show ?thesis using Cons by (simp add: walk_NInf_sum)
  next
    assume "js_div (lkbk_score l) (Fin 0) = NaN"
    then show ?thesis using Cons by (simp add: walk_NaN_sum)
  qed
qed

text \<open>
  C5. For a pool that is not empty and whose scores sum to zero, \<open>getSelection\<close> returns
  the index 0 whatever value the random source gives (any number, \<open>NaN\<close> included). The
  division by the zero sum is carried out and raises nothing: \<open>getSelection\<close> has no
  failing branch, and its only other effect is \<open>lastAverage\<close>, set to zero.
\<close>

theorem getSelection_zero_sum:
  assumes "lookbooks \<noteq> []" and "scoreSum lookbooks = Fin 0"
  shows "getSelection t lookbooks r = (0, t\<lparr>lastAverage := Fin 0\<rparr>)"
  using assms by (simp add: getSelection_def walk_zero_sum)

theorem getSelection_zero_sum_witness:
  "getSelection NewPersonalize
     [item ''a'' [''x''] False (Fin 0), item ''b'' [''y''] False (Fin 0)] (Fin 0.9)
   = (0, NewPersonalize\<lparr>lastAverage := Fin 0\<rparr>)"
  using getSelection_zero_sum
    [of "[item ''a'' [''x''] False (Fin 0), item ''b'' [''y''] False (Fin 0)]"
        NewPersonalize "Fin 0.9"]
  by (simp add: scoreSum_def item_def)

text \<open>
  C7, as the code has it. For a pool of two lookbooks whose scores are \<open>3 * s\<close> and \<open>s\<close>
  (\<open>s\<close> not zero) and a random value \<open>r\<close> in \<open>[0, 1)\<close>, \<open>getSelection\<close> picks the first
  lookbook if and only if \<open>r \<le> 0.75\<close> and the second if and only if \<open>0.75 < r\<close>: the
  pick is the first lookbook whose cumulative share is at least \<open>r\<close>, so the boundary
  value \<open>0.75\<close> belongs to the first bucket.
\<close>

theorem getSelection_three_to_one:
  assumes "s \<noteq> 0" and "lkbk_score a = Fin (3 * s)" and "lkbk_score b = Fin s"
    and "0 \<le> r" and "r < 1"
  shows "fst (getSelection t [a, b] (Fin r)) = (if r \<le> 0.75 then 0 else 1)"
  using assms by (simp add: getSelection_def scoreSum_def)

theorem getSelection_three_to_one_witness:
  "fst (getSelection NewPersonalize
          [item ''a'' [''x''] False (Fin 6), item ''b'' [''y''] False (Fin 2)] (Fin 0.8)) = 1"
  using getSelection_three_to_one
    [where s = 2 and a = "item ''a'' [''x''] False (Fin 6)"
       and b = "item ''b'' [''y''] False (Fin 2)" and r = "0.8" and t = NewPersonalize]
  by (simp add: item_def)

text \<open>
  The claim puts \<open>0.75\<close> in the second bucket, \<open>[0.75, 1)\<close>; the code picks the first
  lookbook there.
\<close>

theorem getSelection_boundary_counterexample:
  "(0.75::real) \<le> 0.75 \<and> (0.75::real) < 1 \<and>
   fst (getSelection NewPersonalize
          [item ''a'' [''x''] False (Fin 3), item ''b'' [''y''] False (Fin 1)] (Fin 0.75)) \<noteq> 1"
  by (simp add: getSelection_def scoreSum_def item_def)

section \<open>The selected list\<close>

lemma promote_loop_eq:
  "promote_loop ls result temp =
     (result @ filter lkbk_promote ls, temp @ filter (\<lambda>l. \<not> lkbk_promote l) ls)"
  by (induction ls arbitrary: result temp) simp_all

text \<open>The index that the walk returns lies within the pool.\<close>

lemma walk_bound: "ls \<noteq> [] \<Longrightarrow> selection_walk ls rc ss rs idx < idx + length ls"
proof (induction ls arbitrary: rs idx)
  case Nil
  then show ?case by simp
next
  case (Cons l ls)
  show ?case
  proof (cases "ls = []")
    case True
    then show ?thesis by (simp add: Let_def)
  next
    case False
    from Cons.IH [OF False, of "js_add rs (js_div (lkbk_score l) ss)" "idx + 1"]
    show ?thesis by (simp add: Let_def)
  qed
qed

lemma getSelection_bound: "ls \<noteq> [] \<Longrightarrow> fst (getSelection t ls r) < length ls"
  using walk_bound [of ls r "scoreSum ls" "Fin 0" 0] by (simp add: getSelection_def Let_def)

lemma select_loop_length:
  "select_loop n i rand t pool uw result = Inr (res, t') \<Longrightarrow> length res = length result + n"
proof (induction n arbitrary: i t pool uw result)
  case 0
  then show ?case by simp
next
  case (Suc n)
  then show ?case
    by (auto split: prod.splits sum.splits)
qed

lemma updateChoices_ok:
  assumes "index < length pool" and "\<forall>l\<in>set pool. lkbk_interests l \<noteq> None"
  shows "\<exists>u. updateChoices t pool uw index = Inr u \<and> u_lookbook u = pool ! index
           \<and> u_lookbooks u = take index pool @ drop (index + 1) pool"
proof -
  from assms have "lkbk_interests (pool ! index) \<noteq> None" by simp
  then obtain ints where "lkbk_interests (pool ! index) = Some ints" by blast
  with assms(1) show ?thesis by (simp add: updateChoices_def Let_def)
qed

lemma set_remove_subset: "set (take i xs @ drop (i + 1) xs) \<subseteq> set xs"
  using set_take_subset [of i xs] set_drop_subset [of "i + 1" xs] by auto

text \<open>
  The loop raises nothing when it runs for at most as many rounds as the pool has
  lookbooks and every lookbook of the pool has an interests list.
\<close>

lemma select_loop_ok:
  assumes "n \<le> length pool" and "\<forall>l\<in>set pool. lkbk_interests l \<noteq> None"
  shows "\<exists>res t'. select_loop n i rand t pool uw result = Inr (res, t')"
  using assms
proof (induction n arbitrary: i t pool uw result)
  case 0
  then show ?case by simp
next
  case (Suc n)
  obtain sel t1 where gs: "getSelection t pool (rand i) = (sel, t1)"
    by (cases "getSelection t pool (rand i)")
  from Suc.prems have ne: "pool \<noteq> []" by auto
  from getSelection_bound [OF ne, of t "rand i"] gs have sel: "sel < length pool" by simp
  from updateChoices_ok [OF sel Suc.prems(2), of t1 uw]
  obtain u where u: "updateChoices t1 pool uw sel = Inr u"
    and ul: "u_lookbooks u = take sel pool @ drop (sel + 1) pool" by blast
  have len: "n \<le> length (u_lookbooks u)" using Suc.prems(1) sel ul by simp
  have ints: "\<forall>l\<in>set (u_lookbooks u). lkbk_interests l \<noteq> None"
    using Suc.prems(2) set_remove_subset [of sel pool] ul by auto
  from Suc.IH [OF len ints, of "i + 1" t1 "u_userWeights u" "result @ [u_lookbook u]"]
  show ?case using gs u by simp
qed

text \<open>
  The list that the loop builds, and whether it fails, depend on the pool with its
  scores and on the random values only: not on the weights that the loop passes from
  round to round, and on no field of the instance.
\<close>

lemma select_loop_indep:
  "map_sum id fst (select_loop n i rand t pool uw result)
   = map_sum id fst (select_loop n i rand t2 pool uw2 result)"
proof (induction n arbitrary: i t t2 pool uw uw2 result)
  case 0
  show ?case by simp
next
  case (Suc n)
  define sel where "sel = selection_walk pool (rand i) (scoreSum pool) (Fin 0) 0"
  define ta where "ta = snd (getSelection t pool (rand i))"
  define tb where "tb = snd (getSelection t2 pool (rand i))"
  have ga: "getSelection t pool (rand i) = (sel, ta)"
    by (simp add: getSelection_def Let_def sel_def ta_def)
  have gb: "getSelection t2 pool (rand i) = (sel, tb)"
    by (simp add: getSelection_def Let_def sel_def tb_def)
  show ?case
  proof (cases "length pool \<le> sel \<or> lkbk_interests (pool ! sel) = None")
    case True
    then show ?thesis using ga gb by (auto simp: updateChoices_def Let_def)
  next
    case False
    then obtain ints where ints: "lkbk_interests (pool ! sel) = Some ints"
      and lt: "sel < length pool" by auto
    show ?thesis using ga gb ints lt
        Suc.IH [of "i + 1" ta "take sel pool @ drop (sel + 1) pool"
                   "deprioritize ta ints (object_assign uw)" "result @ [pool ! sel]" tb
                   "deprioritize tb ints (object_assign uw2)"]
      by (simp add: updateChoices_def Let_def)
  qed
qed

lemma getList_Inr_length:
  assumes "getList t lookbooks uw rand = Inr (res, t')"
  shows "length res = promotedCount lookbooks + remainingSlots t lookbooks"
proof -
  from assms have "select_loop
      (nat (min (count t - int (promotedCount lookbooks))
                (int (length (filter (\<lambda>l. \<not> lkbk_promote l) lookbooks)))))
      0 rand t (filter (\<lambda>l. \<not> lkbk_promote l) lookbooks) uw (filter lkbk_promote lookbooks)
      = Inr (res, t')"
    by (simp add: getList_def promote_loop_eq promotedCount_def Let_def)
  from select_loop_length [OF this] show ?thesis
    by (simp only: promotedCount_def remainingSlots_def nat_min_int)
qed

lemma slots_bounds:
  "promotedCount lookbooks + remainingSlots t lookbooks \<le> length lookbooks"
  "int (promotedCount lookbooks + remainingSlots t lookbooks)
     \<le> max (count t) (int (promotedCount lookbooks))"
proof -
  have "length (filter lkbk_promote lookbooks)
        + length (filter (\<lambda>l. \<not> lkbk_promote l) lookbooks) = length lookbooks"
    using sum_length_filter_compl [of lkbk_promote lookbooks] by simp
  then show "promotedCount lookbooks + remainingSlots t lookbooks \<le> length lookbooks"
    by (simp add: promotedCount_def remainingSlots_def)
  show "int (promotedCount lookbooks + remainingSlots t lookbooks)
     \<le> max (count t) (int (promotedCount lookbooks))"
    by (simp add: remainingSlots_def)
qed

lemma getList_ok:
  assumes "\<forall>l\<in>set lookbooks. lkbk_interests l \<noteq> None"
  shows "\<exists>res t'. getList t lookbooks uw rand = Inr (res, t')"
proof -
  let ?pool = "filter (\<lambda>l. \<not> lkbk_promote l) lookbooks"
  let ?n = "nat (min (count t - int (length (filter lkbk_promote lookbooks)))
                     (int (length ?pool)))"
  have "?n \<le> length ?pool" by simp
  moreover have "\<forall>l\<in>set ?pool. lkbk_interests l \<noteq> None" using assms by simp
  ultimately have
    "\<exists>res t'. select_loop ?n 0 rand t ?pool uw (filter lkbk_promote lookbooks) = Inr (res, t')"
    by (rule select_loop_ok)
  then show ?thesis by (simp add: getList_def promote_loop_eq Let_def)
qed

lemma getList_indep:
  assumes "count t = count t2"
  shows "map_sum id fst (getList t lookbooks uw rand)
         = map_sum id fst (getList t2 lookbooks uw2 rand)"
  using assms select_loop_indep
  by (simp add: getList_def promote_loop_eq Let_def)

text \<open>
  C1, as the code has it. Every promoted lookbook is pushed on the result before the
  slots are counted, so the list that \<open>getList\<close> returns has the length
  \<open>promotedCount + remainingSlots\<close>, where \<open>remainingSlots\<close> is
  \<open>max(0, count - promotedCount)\<close> capped at the size of the pool. That length is at
  most the number of lookbooks given, and at most the larger of \<open>count\<close> and
  \<open>promotedCount\<close>: at most \<open>count\<close> when no more than \<open>count\<close> lookbooks are promoted.
  \<open>getList\<close> returns a list whenever every lookbook has an interests list, as every
  lookbook that \<open>cleanup\<close> keeps has. (\<open>count\<close> is an integer here.)
\<close>

theorem getList_length:
  "(getList t lookbooks uw rand = Inr (res, t') \<longrightarrow>
      length res = promotedCount lookbooks + remainingSlots t lookbooks
      \<and> length res \<le> length lookbooks
      \<and> int (length res) \<le> max (count t) (int (promotedCount lookbooks)))
   \<and> ((\<forall>l\<in>set lookbooks. lkbk_interests l \<noteq> None) \<longrightarrow>
        (\<exists>res t'. getList t lookbooks uw rand = Inr (res, t')))"
  using getList_Inr_length [of t lookbooks uw rand res t'] slots_bounds [of lookbooks t]
    getList_ok [of lookbooks t uw rand]
  by auto

theorem getList_length_witness:
  "\<exists>res t'. getList NewPersonalize six_scored no_weights (always (Fin 0.5)) = Inr (res, t')
     \<and> length res = 4"
proof -
  have i: "\<forall>l\<in>set six_scored. lkbk_interests l \<noteq> None"
    by (simp add: six_scored_def item_def)
  have p: "promotedCount six_scored + remainingSlots NewPersonalize six_scored = 4"
    by (simp add: promotedCount_def remainingSlots_def six_scored_def item_def
        NewPersonalize_def)
  from i getList_length [of NewPersonalize six_scored no_weights "always (Fin 0.5)"]
  obtain res t' where
    r: "getList NewPersonalize six_scored no_weights (always (Fin 0.5)) = Inr (res, t')"
    by blast
  with p getList_length [of NewPersonalize six_scored no_weights "always (Fin 0.5)" res t']
  show ?thesis by simp
qed

text \<open>
  With \<open>count = 1\<close> and two promoted lookbooks, \<open>choose\<close> returns both: a list longer
  than \<open>count\<close>.
\<close>

theorem promoted_exceed_count_counterexample:
  "count (choose_setup (this fresh) two_promoted (count_settings 1 None) no_interests) = 1
   \<and> map_sum id (map lkbk_uid \<circ> fst)
        (choose_lookbooks two_promoted (count_settings 1 None) no_interests
           (always (Fin 0.5)) fresh)
      = Inr [Some ''a'', Some ''b'']"
  by (simp add: choose_defs example_defs)

text \<open>
  The working copy of the weights that \<open>updateChoices\<close> returns is passed to the next
  round and read by nothing: \<open>getSelection\<close> reads the scores that were attached before
  the loop. So the list that \<open>getList\<close> returns is the same for every weight map and for
  every value of \<open>deprioritization\<close>.
\<close>

lemma getList_ignores_weights:
  "map_sum id fst (getList (t\<lparr>deprioritization := d\<rparr>) lookbooks uw2 rand)
   = map_sum id fst (getList t lookbooks uw rand)"
  by (rule getList_indep) simp

text \<open>
  C2, the code at a failing input. The stored weights are 1 for \<open>x\<close> and for \<open>y\<close>; the
  lookbooks \<open>a\<close> and \<open>b\<close> have the interest \<open>x\<close>, \<open>c\<close> has \<open>y\<close>; two lookbooks are asked
  for and the random source returns 0.5 twice. The three scores are equal, so the first
  round picks \<open>b\<close>. Were the second round computed from the deprioritized weight of \<open>x\<close>,
  the share of \<open>a\<close> would be below one half and \<open>c\<close> would be picked. The code picks \<open>a\<close>,
  from the scores it had before the first round, and it does so as well when the
  deprioritization is set to 0.9.
\<close>

theorem deprioritization_without_effect:
  "map_sum id (map lkbk_uid \<circ> fst)
     (choose_lookbooks three_posts (count_settings 2 None) no_interests
        (always (Fin 0.5)) stored_xy)
   = Inr [Some ''b'', Some ''a'']
   \<and> map_sum id (map lkbk_uid \<circ> fst)
       (choose_lookbooks three_posts (count_settings 2 (Some (Fin 0.9))) no_interests
          (always (Fin 0.5)) stored_xy)
     = Inr [Some ''b'', Some ''a'']"
  by (simp add: choose_defs example_defs numeral_2_eq_2)

section \<open>Sanitizing and choosing\<close>

lemma cleanup_loop_eq:
  "map Object (cleanup_loop es result) = map Object result @ filter valid_entry es"
proof (induction es result rule: cleanup_loop.induct)
  case (1 result)
  show ?case by simp
next
  case (2 rest result)
  then show ?case by simp
next
  case (3 lkbk rest result)
  then show ?case by (auto split: option.splits)
qed

lemma cleanup_Array: "map Object (cleanup (Array es)) = filter valid_entry es"
  by (simp add: cleanup_loop_eq)

lemma cleanup_interests:
  assumes "l \<in> set (cleanup ps)"
  shows "lkbk_interests l \<noteq> None"
proof (cases ps)
  case NotArray
  with assms show ?thesis by simp
next
  case (Array es)
  from assms have "Object l \<in> set (map Object (cleanup ps))" by simp
  then have "Object l \<in> set (filter valid_entry es)" using Array cleanup_Array by metis
  then have "valid_entry (Object l)" by simp
  then show ?thesis by (auto split: option.splits)
qed

lemma slice0_subset: "set (slice0 xs n) \<subseteq> set xs"
  by (auto simp: slice0_def dest: in_set_takeD)

lemma score_lookbook_fields [simp]:
  "lkbk_interests (score_lookbook t uw l) = lkbk_interests l"
  "lkbk_promote (score_lookbook t uw l) = lkbk_promote l"
  "lkbk_uid (score_lookbook t uw l) = lkbk_uid l"
  by (simp_all add: score_lookbook_def Let_def)

lemma choose_setup_fields [simp]:
  "count (choose_setup t ps st di) = or_int (s_count st) (count t)"
  "maxConsidered (choose_setup t ps st di) = or_int (s_maxConsidered st) (maxConsidered t)"
  "scoreBoostExponent (choose_setup t ps st di) = scoreBoostExponent t"
  "interestValueFloor (choose_setup t ps st di) = interestValueFloor t"
  "initialWeight (choose_setup t ps st di) = initialWeight t"
  by (simp_all add: choose_setup_def Let_def)

text \<open>
  \<open>performChoose\<close> raises nothing: the lookbooks it hands to \<open>getList\<close> passed \<open>cleanup\<close>.
  Of the environment it changes the instance only.
\<close>

lemma performChoose_ok:
  "\<exists>res t'. performChoose ps rand e = Inr (res, e\<lparr>this := t'\<rparr>)
     \<and> getList
          ((this e)\<lparr>scored := score (this e) (slice0 (cleanup ps) (maxConsidered (this e)))
                                (getWeights e)\<rparr>)
          (score (this e) (slice0 (cleanup ps) (maxConsidered (this e))) (getWeights e))
          (getWeights e) rand
        = Inr (res, t')"
proof -
  let ?data = "slice0 (cleanup ps) (maxConsidered (this e))"
  let ?sc = "score (this e) ?data (getWeights e)"
  have "\<forall>l\<in>set ?sc. lkbk_interests l \<noteq> None"
    using cleanup_interests [of _ ps] slice0_subset [of "cleanup ps" "maxConsidered (this e)"]
    by (auto simp: score_def)
  from getList_ok [OF this, of "(this e)\<lparr>scored := ?sc\<rparr>" "getWeights e" rand]
  obtain res t' where
    "getList ((this e)\<lparr>scored := ?sc\<rparr>) ?sc (getWeights e) rand = Inr (res, t')"
    by blast
  then show ?thesis by (simp add: performChoose_def Let_def)
qed

lemma performChoose_list:
  "map_sum id fst (performChoose ps rand e)
   = map_sum id fst
       (getList
          ((this e)\<lparr>scored := score (this e) (slice0 (cleanup ps) (maxConsidered (this e)))
                                (getWeights e)\<rparr>)
          (score (this e) (slice0 (cleanup ps) (maxConsidered (this e))) (getWeights e))
          (getWeights e) rand)"
  by (simp add: performChoose_def Let_def split: sum.splits)

text \<open>
  The list that \<open>choose\<close> returns is no longer than the sanitized and truncated catalog,
  and no longer than the larger of the resolved \<open>count\<close> and the number of promoted
  lookbooks in that catalog.
\<close>

lemma choose_length:
  "\<exists>res e'. choose_lookbooks ps st di rand e = Inr (res, e')
     \<and> length res
         \<le> length (slice0 (cleanup ps) (or_int (s_maxConsidered st) (maxConsidered (this e))))
     \<and> int (length res)
         \<le> max (or_int (s_count st) (count (this e)))
             (int (promotedCount
                (slice0 (cleanup ps) (or_int (s_maxConsidered st) (maxConsidered (this e))))))"
proof -
  let ?e = "e\<lparr>this := choose_setup (this e) ps st di\<rparr>"
  let ?data = "slice0 (cleanup ps) (maxConsidered (this ?e))"
  let ?sc = "score (this ?e) ?data (getWeights ?e)"
  from performChoose_ok [of ps rand ?e]
  obtain res t' where p: "performChoose ps rand ?e = Inr (res, ?e\<lparr>this := t'\<rparr>)"
    and g: "getList ((this ?e)\<lparr>scored := ?sc\<rparr>) ?sc (getWeights ?e) rand = Inr (res, t')"
    by blast
  have c: "count ((this ?e)\<lparr>scored := ?sc\<rparr>) = or_int (s_count st) (count (this e))"
    by simp
  have pc: "promotedCount ?sc = promotedCount ?data"
    by (simp add: promotedCount_def score_def filter_map comp_def)
  have l: "length ?sc = length ?data" by (simp add: score_def)
  from getList_Inr_length [OF g] slots_bounds [of ?sc "(this ?e)\<lparr>scored := ?sc\<rparr>"]
  have "length res \<le> length ?sc"
    and "int (length res)
           \<le> max (count ((this ?e)\<lparr>scored := ?sc\<rparr>)) (int (promotedCount ?sc))"
    by simp_all
  then have a: "length res \<le> length ?data"
    and b: "int (length res)
              \<le> max (or_int (s_count st) (count (this e))) (int (promotedCount ?data))"
    by (simp_all only: pc l c)
  from p a b show ?thesis
    by (auto simp: choose_lookbooks_def)
qed

text \<open>
  C8. When \<open>posts\<close> is not an array, or is an array whose entries are all invalid (no
  object, no string uid, or no interests array that is not empty), \<open>choose\<close> raises
  nothing and returns the empty list. From any array \<open>cleanup\<close> keeps the valid entries,
  all of them, unchanged and in their order.
\<close>

theorem bad_catalog_gives_empty_list:
  "((ps = NotArray \<or> (\<exists>es. ps = Array es \<and> (\<forall>x\<in>set es. \<not> valid_entry x))) \<longrightarrow>
      map_sum id fst (choose_lookbooks ps st di rand e) = Inr [])
   \<and> map Object (cleanup (Array es)) = filter valid_entry es"
proof -
  have "cleanup ps = []"
    if "ps = NotArray \<or> (\<exists>es. ps = Array es \<and> (\<forall>x\<in>set es. \<not> valid_entry x))"
  proof -
    from that show ?thesis
    proof
      assume "ps = NotArray" then show ?thesis by simp
    next
      assume "\<exists>es. ps = Array es \<and> (\<forall>x\<in>set es. \<not> valid_entry x)"
      then obtain es where ps: "ps = Array es" and inv: "\<forall>x\<in>set es. \<not> valid_entry x"
        by blast
      from inv have "filter valid_entry es = []" by (simp add: filter_empty_conv)
      with cleanup_Array [of es] have "map Object (cleanup (Array es)) = []" by simp
      with ps show ?thesis by simp
    qed
  qed
  then have "map_sum id fst (choose_lookbooks ps st di rand e) = Inr []"
    if "ps = NotArray \<or> (\<exists>es. ps = Array es \<and> (\<forall>x\<in>set es. \<not> valid_entry x))"
    using that
    by (simp add: choose_lookbooks_def performChoose_def slice0_def score_def getList_def
        Let_def)
  then show ?thesis using cleanup_Array [of es] by blast
qed

theorem bad_catalog_gives_empty_list_witness:
  "map_sum id fst
     (choose_lookbooks invalid_posts no_settings no_interests (always (Fin 0.5)) fresh) = Inr []
   \<and> map Object (cleanup mixed_posts) = [raw ''a'' [''x''] False, raw ''e'' [''y'', ''z''] True]"
proof -
  have inv: "invalid_posts = NotArray \<or>
    (\<exists>es. invalid_posts = Array es \<and> (\<forall>x\<in>set es. \<not> valid_entry x))"
    by (simp add: example_defs)
  have "map Object (cleanup mixed_posts)
        = filter valid_entry [NonObject, raw ''a'' [''x''] False, raw ''b'' [] False,
            Object ((item ''c'' [''y''] False NaN)\<lparr>lkbk_uid := None\<rparr>),
            Object ((item ''d'' [''y''] False NaN)\<lparr>lkbk_interests := None\<rparr>),
            raw ''e'' [''y'', ''z''] True]"
    unfolding mixed_posts_def
    using bad_catalog_gives_empty_list
      [of invalid_posts no_settings no_interests "always (Fin 0.5)" fresh]
    by blast
  moreover have "map_sum id fst
      (choose_lookbooks invalid_posts no_settings no_interests (always (Fin 0.5)) fresh) = Inr []"
    using inv bad_catalog_gives_empty_list
      [of invalid_posts no_settings no_interests "always (Fin 0.5)" fresh]
    by blast
  ultimately show ?thesis by (simp add: raw_def item_def)
qed

text \<open>
  C9. \<open>choose\<close> raises nothing and leaves the stored weights as they were. \<open>click\<close>
  replaces them by the weights that \<open>updateWeights\<close> computes from the weights that
  \<open>getWeights\<close> loads, as JSON holds them, and changes nothing else. (The two other
  public functions, \<open>chooseText\<close> and \<open>findImage\<close>, compute a value from their arguments
  and touch neither the instance nor the storage.)
\<close>

theorem choose_reads_click_writes:
  "(\<exists>res e'. choose_lookbooks ps st di rand e = Inr (res, e')
       \<and> localStorage e' = localStorage e)
   \<and> localStorage (click uid clicked e)
       = Some (\<lambda>k. map_option json_number (updateWeights (this e) clicked (getWeights e) k))
   \<and> this (click uid clicked e) = this e"
proof -
  from performChoose_ok [of ps rand "e\<lparr>this := choose_setup (this e) ps st di\<rparr>"]
  obtain res t' where
    "performChoose ps rand (e\<lparr>this := choose_setup (this e) ps st di\<rparr>)
       = Inr (res, e\<lparr>this := choose_setup (this e) ps st di\<rparr>\<lparr>this := t'\<rparr>)"
    by blast
  then have "\<exists>res e'. choose_lookbooks ps st di rand e = Inr (res, e')
       \<and> localStorage e' = localStorage e"
    by (simp add: choose_lookbooks_def)
  then show ?thesis by (simp add: click_def setWeights_def Let_def)
qed

section \<open>The settings\<close>

lemma priority_scoreBoost [simp]: "priority (t\<lparr>scoreBoost := v\<rparr>) i uw = priority t i uw"
  by (simp add: priority_def split: option.splits)

lemma score_interests_scoreBoost [simp]:
  "score_interests (t\<lparr>scoreBoost := v\<rparr>) uw ints i acc = score_interests t uw ints i acc"
  by (induction ints arbitrary: i acc) (simp_all add: Let_def)

lemma score_scoreBoost [simp]: "score (t\<lparr>scoreBoost := v\<rparr>) ls uw = score t ls uw"
  by (simp add: score_def score_lookbook_def Let_def split: option.splits)

lemma getWeights_scoreBoost [simp]:
  "getWeights (e\<lparr>this := t\<lparr>scoreBoost := v\<rparr>\<rparr>) = getWeights (e\<lparr>this := t\<rparr>)"
  by (simp add: getWeights_def split: option.splits)

lemma choose_setup_scoreBoost:
  "choose_setup t ps (st\<lparr>s_interest := Some (i\<lparr>i_scoreBoost := x\<rparr>)\<rparr>) di
   = (choose_setup t ps (st\<lparr>s_interest := Some (i\<lparr>i_scoreBoost := y\<rparr>)\<rparr>) di)
       \<lparr>scoreBoost := or_opt x (scoreBoost t)\<rparr>"
  by (simp add: choose_setup_def Let_def)

text \<open>
  \<open>choose\<close> stores \<open>interest.scoreBoost\<close> in the field \<open>scoreBoost\<close>, and \<open>score\<close> raises to
  the field \<open>scoreBoostExponent\<close>, which nothing assigns. So the list that \<open>choose\<close>
  returns, with its scores, is the same whatever \<open>interest.scoreBoost\<close> is.
\<close>

lemma scoreBoost_override_ignored:
  "map_sum id fst
     (choose_lookbooks ps (st\<lparr>s_interest := Some (i\<lparr>i_scoreBoost := x\<rparr>)\<rparr>) di rand e)
   = map_sum id fst
       (choose_lookbooks ps (st\<lparr>s_interest := Some (i\<lparr>i_scoreBoost := y\<rparr>)\<rparr>) di rand e)"
  unfolding choose_lookbooks_def performChoose_list choose_setup_scoreBoost [where x = x and y = y]
  by (simp add: getList_indep)

text \<open>
  A setting that is absent or falsy leaves the field of the instance as it is, and the
  instance keeps its fields from one call of \<open>choose\<close> to the next: after a call with
  \<open>count = 7\<close>, a call without a count still uses 7, not the initial 4.
\<close>

lemma choose_setup_keeps_last_value:
  "count (choose_setup (choose_setup NewPersonalize one_post (count_settings 7 None) no_interests)
            one_post no_settings no_interests) = 7"
  by (simp add: example_defs)

text \<open>
  C6, the code at a failing input. The caller supplies \<open>interest.scoreBoost = 3\<close> to a
  fresh instance; the stored weight of \<open>x\<close> is 1, so the summed score of the one lookbook
  is 2. The setting is kept in \<open>scoreBoost\<close>, the exponent is still 1.9, and the score
  returned is \<open>Math.pow(2, 1.9)\<close>, which is not \<open>Math.pow(2, 3)\<close>.
\<close>

theorem scoreBoost_setting_unused:
  "scoreBoost (choose_setup NewPersonalize one_post (boost_settings (Fin 3)) no_interests)
     = Some (Fin 3)
   \<and> scoreBoostExponent (choose_setup NewPersonalize one_post (boost_settings (Fin 3)) no_interests)
       = Fin 1.9
   \<and> map_sum id (map lkbk_score \<circ> fst)
        (choose_lookbooks one_post (boost_settings (Fin 3)) no_interests (always (Fin 0.5))
           stored_xy)
       = Inr [js_pow (Fin 2) (Fin 1.9)]
   \<and> js_pow (Fin 2) (Fin 1.9) \<noteq> js_pow (Fin 2) (Fin 3)"
  using pow_2_19 by (simp add: choose_defs example_defs)

section \<open>The weights\<close>

lemma add_missing_eq:
  "add_missing t cl uw k =
     (if k \<in> set cl \<and> \<not> lookup_truthy uw k then Some (initialValue t) else uw k)"
  by (induction cl arbitrary: uw) (auto simp: lookup_truthy_def)

lemma updateWeights_eq:
  "updateWeights t cl uw k =
     (case uw k of
        None \<Rightarrow> (if k \<in> set cl \<and> \<not> inherited k then Some (initialValue t) else None)
      | Some w \<Rightarrow>
          (if k \<in> set cl \<and> \<not> truthy (filter_weight t cl k w) then Some (initialValue t)
           else Some (filter_weight t cl k w)))"
  by (simp add: updateWeights_def add_missing_eq lookup_truthy_def split: option.splits)

lemma filter_weight_finite:
  assumes "filterConst t = Fin c" and "hitValue t = Fin h" and "missValue t = Fin m"
    and "interestValueFloor t = Fin f" and "f \<le> 1"
  shows "\<exists>y. filter_weight t cl k (Fin x) = Fin y \<and> f \<le> y \<and> y \<le> 1"
  using assms by (simp add: filter_weight_def js_sub_def Let_def)

lemma filter_weight_default:
  assumes "w \<noteq> NaN"
  shows "js_le (Fin 0.1) (filter_weight NewPersonalize cl k w)
         \<and> js_le (filter_weight NewPersonalize cl k w) (Fin 1)
         \<and> truthy (filter_weight NewPersonalize cl k w)"
  using assms
  by (cases w)
    (auto simp: filter_weight_def js_sub_def js_signed_inf_def NewPersonalize_def Let_def)

text \<open>
  A clicked identifier that names a member of \<open>Object.prototype\<close> and that the map does
  not hold is not inserted: \<open>userWeights[i]\<close> finds the inherited member, which is truthy.
\<close>

lemma clicked_inherited_name_not_inserted:
  "updateWeights NewPersonalize [''constructor''] (map_of [(''a'', Fin 0.5)]) ''constructor'' = None"
  by (simp add: updateWeights_eq object_defs)

text \<open>
  C3, as the code has it. The clamp is applied by \<open>updateWeights\<close> and by nothing else.
  With a finite filter constant and finite hit and miss values, and a floor \<open>f\<close> with
  \<open>0 < f \<le> 1\<close>, a weight update leaves every key that held a finite weight at a weight
  in \<open>[f, 1]\<close>; a key that the map did not hold is inserted with \<open>initialValue\<close>, as it
  is, when it was clicked and does not name a member of \<open>Object.prototype\<close>, and is
  not inserted otherwise. Without a stored map, \<open>getWeights\<close> gives each key of the
  default table other than \<open>__proto__\<close> the table's weight if that is truthy and
  \<open>initialWeight\<close> if not, as they are, with no clamp.
\<close>

theorem update_range_general:
  assumes "filterConst t = Fin c" and "hitValue t = Fin h" and "missValue t = Fin m"
    and "interestValueFloor t = Fin f" and "0 < f" and "f \<le> 1"
  shows "(\<forall>x. uw k = Some (Fin x) \<longrightarrow>
            (\<exists>y. updateWeights t clicked uw k = Some (Fin y) \<and> f \<le> y \<and> y \<le> 1))
    \<and> (uw k = None \<longrightarrow>
          updateWeights t clicked uw k
            = (if k \<in> set clicked \<and> \<not> inherited k then Some (initialValue t) else None))
    \<and> (localStorage e = None \<longrightarrow>
          getWeights e k
            = (if k = ''__proto__'' then None
               else map_option (\<lambda>d. or_num (weight d) (initialWeight (this e)))
                      (defaultInterests (this e) k)))"
proof -
  have present: "\<exists>y. updateWeights t clicked uw k = Some (Fin y) \<and> f \<le> y \<and> y \<le> 1"
    if x: "uw k = Some (Fin x)" for x
  proof -
    from filter_weight_finite [OF assms(1-4) assms(6), of clicked k x]
    obtain y where y: "filter_weight t clicked k (Fin x) = Fin y" "f \<le> y" "y \<le> 1" by blast
    with assms(5) have "truthy (Fin y)" by simp
    with x y show ?thesis by (simp add: updateWeights_eq)
  qed
  have absent: "updateWeights t clicked uw k
             = (if k \<in> set clicked \<and> \<not> inherited k then Some (initialValue t) else None)"
    if "uw k = None"
    using that by (simp add: updateWeights_eq)
  have seed: "getWeights e k
            = (if k = ''__proto__'' then None
               else map_option (\<lambda>d. or_num (weight d) (initialWeight (this e)))
                      (defaultInterests (this e) k))"
    if "localStorage e = None"
    using that by (simp add: getWeights_def object_assign_def)
  from present absent seed show ?thesis by blast
qed

theorem update_range_general_witness:
  "(\<exists>y. updateWeights NewPersonalize [''x''] (map_of [(''x'', Fin 0.5), (''y'', Fin 0.12)]) ''y''
          = Some (Fin y) \<and> 0.1 \<le> y \<and> y \<le> 1)
   \<and> updateWeights NewPersonalize [''x''] (map_of [(''y'', Fin 0.12)]) ''x'' = Some (Fin 0.5)
   \<and> getWeights (fresh\<lparr>this := NewPersonalize\<lparr>defaultInterests := feed_interests\<rparr>\<rparr>)
       ''uid-9999''
       = Some (Fin 0.001)"
proof -
  let ?e = "fresh\<lparr>this := NewPersonalize\<lparr>defaultInterests := feed_interests\<rparr>\<rparr>"
  have c: "filterConst NewPersonalize = Fin 0.95" "hitValue NewPersonalize = Fin 2"
    "missValue NewPersonalize = Fin 0.0001" "interestValueFloor NewPersonalize = Fin 0.1"
    "(0::real) < 0.1" "(0.1::real) \<le> 1"
    by (simp_all add: NewPersonalize_def)
  have y: "map_of [(''x'', Fin 0.5), (''y'', Fin 0.12)] ''y'' = Some (Fin 0.12)"
    and x: "map_of [(''y'', Fin 0.12)] ''x'' = None"
    and s: "localStorage ?e = None"
    by (simp_all add: fresh_def)
  from y update_range_general
    [OF c, where uw = "map_of [(''x'', Fin 0.5), (''y'', Fin 0.12)]" and k = "''y''"
       and clicked = "[''x'']"]
  have 1: "\<exists>y. updateWeights NewPersonalize [''x'']
                 (map_of [(''x'', Fin 0.5), (''y'', Fin 0.12)]) ''y''
          = Some (Fin y) \<and> 0.1 \<le> y \<and> y \<le> 1"
    by blast
  from x update_range_general
    [OF c, where uw = "map_of [(''y'', Fin 0.12)]" and k = "''x''" and clicked = "[''x'']"]
  have "updateWeights NewPersonalize [''x''] (map_of [(''y'', Fin 0.12)]) ''x''
        = (if ''x'' \<in> set [''x''] \<and> \<not> inherited ''x''
           then Some (initialValue NewPersonalize) else None)"
    by blast
  then have 2: "updateWeights NewPersonalize [''x''] (map_of [(''y'', Fin 0.12)]) ''x''
                = Some (Fin 0.5)"
    by (simp add: NewPersonalize_def object_defs)
  from s update_range_general [OF c, where e = "?e" and k = "''uid-9999''"]
  have "getWeights ?e ''uid-9999''
        = (if ''uid-9999'' = ''__proto__'' then None
           else map_option (\<lambda>d. or_num (weight d) (initialWeight (this ?e)))
                  (defaultInterests (this ?e) ''uid-9999''))"
    by blast
  then have 3: "getWeights ?e ''uid-9999'' = Some (Fin 0.001)"
    by (simp add: fresh_def feed_interests_def NewPersonalize_def)
  from 1 2 3 show ?thesis by blast
qed

text \<open>
  Without a stored map, a default weight of 0.065 is loaded as it is, below the floor
  of 0.1.
\<close>

theorem seeded_weight_below_floor_counterexample:
  "getWeights (fresh\<lparr>this := NewPersonalize\<lparr>defaultInterests := feed_interests\<rparr>\<rparr>) ''uid-1234''
     = Some (Fin 0.065)
   \<and> \<not> js_le (interestValueFloor NewPersonalize) (Fin 0.065)"
  by (simp add: getWeights_def object_assign_def fresh_def feed_interests_def NewPersonalize_def)

text \<open>
  C4, as the code has it. Under the default configuration, for every list of clicked
  interests and every weight map that holds no \<open>NaN\<close> (the infinities are allowed), every
  weight of the map that \<open>updateWeights\<close> returns lies in \<open>[0.1, 1]\<close>: a key that the map
  held has \<open>0.95 * old + (1 - 0.95) * target\<close> clamped into \<open>[0.1, 1]\<close>, where the target
  is 2 when the key was clicked and 0.0001 when not, and a clicked key that the map did
  not hold is inserted with 0.5 unless it names a member of \<open>Object.prototype\<close>; no
  other key is added.
\<close>

theorem update_range_default:
  assumes "\<forall>k. uw k \<noteq> Some NaN"
  shows "(\<forall>k w. updateWeights NewPersonalize clicked uw k = Some w \<longrightarrow>
            js_le (Fin 0.1) w \<and> js_le w (Fin 1.0))
    \<and> (\<forall>k w. uw k = Some w \<longrightarrow>
          updateWeights NewPersonalize clicked uw k
            = Some (js_min (Fin 1.0) (js_max (Fin 0.1)
                (js_add (js_mul (Fin 0.95) w)
                   (js_mul (js_sub (Fin 1.0) (Fin 0.95))
                      (if k \<in> set clicked then Fin 2 else Fin 0.0001))))))
    \<and> (\<forall>k. uw k = None \<longrightarrow>
          updateWeights NewPersonalize clicked uw k
            = (if k \<in> set clicked \<and> \<not> inherited k then Some (Fin 0.5) else None))"
proof -
  have range: "js_le (Fin 0.1) w \<and> js_le w (Fin 1.0)"
    if r: "updateWeights NewPersonalize clicked uw k = Some w" for k w
  proof (cases "uw k")
    case None
    with r have "w = Fin 0.5"
      by (simp add: updateWeights_eq NewPersonalize_def split: if_splits)
    then show ?thesis by simp
  next
    case (Some v)
    with assms have "v \<noteq> NaN" by auto
    from filter_weight_default [OF this, of clicked k] Some r show ?thesis
      by (simp add: updateWeights_eq split: if_splits)
  qed
  have present: "updateWeights NewPersonalize clicked uw k
            = Some (js_min (Fin 1.0) (js_max (Fin 0.1)
                (js_add (js_mul (Fin 0.95) w)
                   (js_mul (js_sub (Fin 1.0) (Fin 0.95))
                      (if k \<in> set clicked then Fin 2 else Fin 0.0001)))))"
    if u: "uw k = Some w" for k w
  proof -
    from u assms have "w \<noteq> NaN" by auto
    from filter_weight_default [OF this, of clicked k]
    have "updateWeights NewPersonalize clicked uw k
          = Some (filter_weight NewPersonalize clicked k w)"
      using u by (simp add: updateWeights_eq)
    then show ?thesis
      by (simp add: filter_weight_def NewPersonalize_def Let_def)
  qed
  have absent: "updateWeights NewPersonalize clicked uw k
            = (if k \<in> set clicked \<and> \<not> inherited k then Some (Fin 0.5) else None)"
    if "uw k = None" for k
    using that by (simp add: updateWeights_eq NewPersonalize_def)
  from range present absent show ?thesis by blast
qed

theorem update_range_default_witness:
  "updateWeights NewPersonalize [''x''] (map_of [(''x'', Fin 1), (''y'', Fin 0.065)]) ''y''
     = Some (Fin 0.1)
   \<and> updateWeights NewPersonalize [''x''] (map_of [(''x'', Fin 1), (''y'', Fin 0.065)]) ''x''
       = Some (Fin 1)
   \<and> updateWeights NewPersonalize [''x'', ''z''] (map_of [(''x'', Fin 1), (''y'', Fin 0.065)]) ''z''
       = Some (Fin 0.5)"
proof -
  have h: "\<forall>k. map_of [(''x'', Fin 1), (''y'', Fin 0.065)] k \<noteq> Some NaN"
    by simp
  have y: "map_of [(''x'', Fin 1), (''y'', Fin 0.065)] ''y'' = Some (Fin 0.065)"
    and x: "map_of [(''x'', Fin 1), (''y'', Fin 0.065)] ''x'' = Some (Fin 1)"
    and z: "map_of [(''x'', Fin 1), (''y'', Fin 0.065)] ''z'' = None"
    by simp_all
  note t1 = update_range_default [OF h, of "[''x'']"]
  note t2 = update_range_default [OF h, of "[''x'', ''z'']"]
  from t1 y have
    "updateWeights NewPersonalize [''x''] (map_of [(''x'', Fin 1), (''y'', Fin 0.065)]) ''y''
       = Some (js_min (Fin 1.0) (js_max (Fin 0.1)
                (js_add (js_mul (Fin 0.95) (Fin 0.065))
                   (js_mul (js_sub (Fin 1.0) (Fin 0.95))
                      (if ''y'' \<in> set [''x''] then Fin 2 else Fin 0.0001)))))"
    by blast
  then have 1:
    "updateWeights NewPersonalize [''x''] (map_of [(''x'', Fin 1), (''y'', Fin 0.065)]) ''y''
       = Some (Fin 0.1)"
    by (simp add: js_sub_def)
  from t1 x have
    "updateWeights NewPersonalize [''x''] (map_of [(''x'', Fin 1), (''y'', Fin 0.065)]) ''x''
       = Some (js_min (Fin 1.0) (js_max (Fin 0.1)
                (js_add (js_mul (Fin 0.95) (Fin 1))
                   (js_mul (js_sub (Fin 1.0) (Fin 0.95))
                      (if ''x'' \<in> set [''x''] then Fin 2 else Fin 0.0001)))))"
    by blast
  then have 2:
    "updateWeights NewPersonalize [''x''] (map_of [(''x'', Fin 1), (''y'', Fin 0.065)]) ''x''
       = Some (Fin 1)"
    by (simp add: js_sub_def)
  from t2 z have
    "updateWeights NewPersonalize [''x'', ''z''] (map_of [(''x'', Fin 1), (''y'', Fin 0.065)]) ''z''
       = (if ''z'' \<in> set [''x'', ''z''] \<and> \<not> inherited ''z'' then Some (Fin 0.5) else None)"
    by blast
  then have 3:
    "updateWeights NewPersonalize [''x'', ''z''] (map_of [(''x'', Fin 1), (''y'', Fin 0.065)]) ''z''
       = Some (Fin 0.5)"
    by (simp add: object_defs)
  from 1 2 3 show ?thesis by simp
qed

text \<open>
  A weight that is \<open>NaN\<close> stays \<open>NaN\<close> through the filter and through \<open>Math.max\<close> and
  \<open>Math.min\<close>, and is replaced only if its key is clicked.
\<close>

theorem update_NaN_counterexample:
  "updateWeights NewPersonalize [] (map_of [(''a'', NaN)]) ''a'' = Some NaN
   \<and> \<not> js_le (interestValueFloor NewPersonalize) NaN"
  by (simp add: updateWeights_def filter_weight_def NewPersonalize_def Let_def)

section \<open>The working copy of the weights\<close>

lemma assign_prop_apply:
  "k \<noteq> ''__proto__'' \<Longrightarrow> assign_prop uw i v k = (if i = k then Some v else uw k)"
  by (simp add: assign_prop_def)

lemma deprioritize_NaN_stays:
  "k \<noteq> ''__proto__'' \<Longrightarrow> uw k = Some NaN \<Longrightarrow> deprioritize t ints uw k = Some NaN"
proof (induction ints arbitrary: uw)
  case Nil
  then show ?case by simp
next
  case (Cons i ints)
  let ?uw = "assign_prop uw i (js_mul (to_number (uw i)) (js_sub (Fin 1.0) (deprioritization t)))"
  have "?uw k = Some NaN"
  proof (cases "i = k")
    case True
    with Cons.prems show ?thesis by (simp add: assign_prop_apply)
  next
    case False
    with Cons.prems show ?thesis by (simp add: assign_prop_apply)
  qed
  with Cons.prems(1) have "deprioritize t ints ?uw k = Some NaN"
    by (rule Cons.IH [of "?uw"])
  then show ?case by (simp only: deprioritize.simps)
qed

lemma deprioritize_absent:
  "k \<noteq> ''__proto__'' \<Longrightarrow> k \<in> set ints \<Longrightarrow> uw k = None \<Longrightarrow>
   deprioritize t ints uw k = Some NaN"
proof (induction ints arbitrary: uw)
  case Nil
  then show ?case by simp
next
  case (Cons i ints)
  let ?uw = "assign_prop uw i (js_mul (to_number (uw i)) (js_sub (Fin 1.0) (deprioritization t)))"
  have step: "deprioritize t (i # ints) uw k = deprioritize t ints ?uw k" by simp
  show ?case
  proof (cases "i = k")
    case True
    with Cons.prems have "?uw k = Some NaN" by (simp add: assign_prop_apply)
    with Cons.prems(1) have "deprioritize t ints ?uw k = Some NaN"
      by (rule deprioritize_NaN_stays)
    with step show ?thesis by simp
  next
    case False
    with Cons.prems have "k \<in> set ints" and "?uw k = None"
      by (simp_all add: assign_prop_apply)
    with Cons.prems(1) have "deprioritize t ints ?uw k = Some NaN"
      by (rule Cons.IH [of "?uw"])
    with step show ?thesis by simp
  qed
qed

lemma deprioritize_present:
  "k \<noteq> ''__proto__'' \<Longrightarrow> uw k = Some (Fin w) \<Longrightarrow> deprioritization t = Fin d \<Longrightarrow>
   deprioritize t ints uw k = Some (Fin (w * (1 - d) ^ count_list ints k))"
proof (induction ints arbitrary: uw w)
  case Nil
  then show ?case by simp
next
  case (Cons i ints)
  let ?uw = "assign_prop uw i (js_mul (to_number (uw i)) (js_sub (Fin 1.0) (deprioritization t)))"
  have step: "deprioritize t (i # ints) uw k = deprioritize t ints ?uw k" by simp
  show ?case
  proof (cases "i = k")
    case True
    with Cons.prems have "?uw k = Some (Fin (w * (1 - d)))"
      by (simp add: assign_prop_apply js_sub_def)
    from Cons.IH [of "?uw" "w * (1 - d)", OF Cons.prems(1) this Cons.prems(3)]
    have "deprioritize t ints ?uw k = Some (Fin (w * (1 - d) * (1 - d) ^ count_list ints k))" .
    with step True show ?thesis by (simp add: mult.assoc)
  next
    case False
    with Cons.prems have "?uw k = Some (Fin w)" by (simp add: assign_prop_apply)
    from Cons.IH [of "?uw" w, OF Cons.prems(1) this Cons.prems(3)]
    have "deprioritize t ints ?uw k = Some (Fin (w * (1 - d) ^ count_list ints k))" .
    with step False show ?thesis by simp
  qed
qed

text \<open>
  C10, as the code has it. When the lookbook at \<open>index\<close> has the interest \<open>i\<close>, and \<open>i\<close>
  is not \<open>__proto__\<close>, \<open>updateChoices\<close> returns a working copy in which \<open>i\<close> is \<open>NaN\<close> if
  the weight map had no such key (the product of an absent entry and
  \<open>1 - deprioritization\<close>). If the map held a finite weight \<open>w\<close> for \<open>i\<close> and the
  deprioritization is a finite \<open>d\<close>, the copy holds \<open>w * (1 - d)\<close>, once more multiplied
  by \<open>1 - d\<close> for every further time that \<open>i\<close> is listed.
\<close>

theorem updateChoices_weights:
  assumes "index < length lookbooks" and "lkbk_interests (lookbooks ! index) = Some ints"
    and "i \<in> set ints" and "i \<noteq> ''__proto__''"
  shows "\<exists>u. updateChoices t lookbooks uw index = Inr u
           \<and> (uw i = None \<longrightarrow> u_userWeights u i = Some NaN)
           \<and> (\<forall>w d. uw i = Some (Fin w) \<and> deprioritization t = Fin d \<longrightarrow>
                 u_userWeights u i = Some (Fin (w * (1 - d) ^ count_list ints i)))"
proof -
  from assms(4) have copy: "object_assign uw i = uw i"
    by (simp add: object_assign_def)
  have absent: "deprioritize t ints (object_assign uw) i = Some NaN" if "uw i = None"
    using that copy assms(3,4) by (simp add: deprioritize_absent)
  have present: "deprioritize t ints (object_assign uw) i
                 = Some (Fin (w * (1 - d) ^ count_list ints i))"
    if "uw i = Some (Fin w)" and "deprioritization t = Fin d" for w d
    using that copy assms(4) by (simp add: deprioritize_present)
  from assms(1,2) absent present show ?thesis
    by (simp add: updateChoices_def Let_def)
qed

theorem updateChoices_weights_witness:
  "\<exists>u. updateChoices NewPersonalize [item ''a'' [''x'', ''y''] False (Fin 1)]
          (map_of [(''x'', Fin 1)]) 0 = Inr u
       \<and> u_userWeights u ''y'' = Some NaN
       \<and> u_userWeights u ''x'' = Some (Fin 0.8)"
proof -
  have 1: "0 < length [item ''a'' [''x'', ''y''] False (Fin 1)]"
    and 2: "lkbk_interests ([item ''a'' [''x'', ''y''] False (Fin 1)] ! 0) = Some [''x'', ''y'']"
    and 3: "''y'' \<in> set [''x'', ''y'']"
    and 4: "map_of [(''x'', Fin 1)] ''y'' = None"
    and 5: "''y'' \<noteq> ''__proto__''"
    by (simp_all add: item_def)
  from updateChoices_weights [OF 1 2 3 5, of NewPersonalize "map_of [(''x'', Fin 1)]"] 4
  obtain u where u: "updateChoices NewPersonalize [item ''a'' [''x'', ''y''] False (Fin 1)]
          (map_of [(''x'', Fin 1)]) 0 = Inr u" and y: "u_userWeights u ''y'' = Some NaN"
    by blast
  from u have "u_userWeights u ''x'' = Some (Fin 0.8)"
    by (auto simp: updateChoices_def item_def NewPersonalize_def js_sub_def object_defs Let_def)
  with u y show ?thesis by blast
qed

text \<open>
  For the interest \<open>__proto__\<close> the copy has no own property before the round, and the
  assignment of the product goes to the inherited setter, which drops a number: the
  working copy that is returned holds no weight for it, not \<open>NaN\<close>.
\<close>

theorem proto_interest_counterexample:
  "no_weights ''__proto__'' = None
   \<and> map_sum id u_userWeights
       (updateChoices NewPersonalize [item ''a'' [''__proto__''] False (Fin 1)] no_weights 0)
     = Inr no_weights"
  by (simp add: updateChoices_def item_def no_weights_def object_defs Let_def)

end
